theory Spec2Isabelle
  imports Main
begin

section \<open>Python values\<close>

text \<open>
  The scraper \<^verbatim>\<open>scraper.py\<close> drives a Selenium browser session over a paginated search
  page, opens every listing it discovers and maps the JSON payload embedded in the detail
  page to a flat dictionary.

  Exceptions are values. Only instances of \<^verbatim>\<open>Exception\<close> are modelled, so a bare
  \<^verbatim>\<open>except:\<close> and \<^verbatim>\<open>except Exception:\<close> catch the same values; the handlers of the
  program tell apart \<^verbatim>\<open>TimeoutException\<close> and \<^verbatim>\<open>NoSuchElementException\<close> only.

  Left out: what \<^verbatim>\<open>print\<close> writes to the console, the delays of \<^verbatim>\<open>time.sleep\<close>, and the
  creation of the debug directory when the module is loaded. None of them changes a
  value or the path the program takes.
\<close>

datatype exn =
    TimeoutException
  | NoSuchElementException
  | WebDriverException
  | JSONDecodeError
  | AttributeError
  | TypeError
  | OSError

text \<open>
  What \<^verbatim>\<open>json.loads\<close> returns: \<^verbatim>\<open>None\<close>, a bool, an int, a float, a str, a list or a dict
  with string keys. A float is a mantissa and a binary exponent, or one of the three
  special values the parser accepts. A str is the list of its code points, one
  \<^typ>\<open>char\<close> standing for one code point; the operations used below (slicing, replacing
  one character, concatenation, substring test) act position by position. A dict is the
  list of its items.
\<close>

datatype pyfloat = Finite int int | NaN | PosInf | NegInf

datatype pyval =
    PyNone
  | PyBool bool
  | PyInt int
  | PyFloat pyfloat
  | PyStr string
  | PyList "pyval list"
  | PyDict "(string \<times> pyval) list"

text \<open>Truth value testing, as in \<^verbatim>\<open>if not listing\<close> and \<^verbatim>\<open>if img.get('url')\<close>.\<close>

fun truthy :: "pyval \<Rightarrow> bool" where
  "truthy PyNone = False"
| "truthy (PyBool b) = b"
| "truthy (PyInt i) = (i \<noteq> 0)"
| "truthy (PyFloat (Finite m e)) = (m \<noteq> 0)"
| "truthy (PyFloat f) = True"
| "truthy (PyStr s) = (s \<noteq> [])"
| "truthy (PyList xs) = (xs \<noteq> [])"
| "truthy (PyDict kvs) = (kvs \<noteq> [])"

definition dict_get :: "(string \<times> pyval) list \<Rightarrow> string \<Rightarrow> pyval option" where
  "dict_get kvs k = map_of kvs k"

definition dict_keys :: "(string \<times> pyval) list \<Rightarrow> string list" where
  "dict_keys kvs = remdups (map fst kvs)"

text \<open>Sequencing of computations that may raise: the first exception wins.\<close>

definition sbind :: "exn + 'a \<Rightarrow> ('a \<Rightarrow> exn + 'b) \<Rightarrow> exn + 'b" where
  "sbind m f = (case m of Inl e \<Rightarrow> Inl e | Inr x \<Rightarrow> f x)"

text \<open>\<^verbatim>\<open>v.get(k, default)\<close>: only a dict has the method.\<close>

definition py_get :: "pyval \<Rightarrow> string \<Rightarrow> pyval \<Rightarrow> exn + pyval" where
  "py_get v k dflt =
     (case v of
        PyDict kvs \<Rightarrow> Inr (case dict_get kvs k of Some x \<Rightarrow> x | None \<Rightarrow> dflt)
      | _ \<Rightarrow> Inl AttributeError)"

text \<open>Iteration (\<^verbatim>\<open>for x in v\<close>, and the argument of \<^verbatim>\<open>str.join\<close>): a list yields its
  elements, a str its characters, a dict its keys; nothing else is iterable.\<close>

definition py_iter :: "pyval \<Rightarrow> exn + pyval list" where
  "py_iter v =
     (case v of
        PyList xs \<Rightarrow> Inr xs
      | PyStr s \<Rightarrow> Inr (map (\<lambda>c. PyStr [c]) s)
      | PyDict kvs \<Rightarrow> Inr (map PyStr (dict_keys kvs))
      | _ \<Rightarrow> Inl TypeError)"

fun the_strs :: "pyval list \<Rightarrow> exn + string list" where
  "the_strs [] = Inr []"
| "the_strs (PyStr s # xs) = sbind (the_strs xs) (\<lambda>ss. Inr (s # ss))"
| "the_strs (x # xs) = Inl TypeError"

fun join :: "string \<Rightarrow> string list \<Rightarrow> string" where
  "join sep [] = []"
| "join sep [s] = s"
| "join sep (s # t # ss) = s @ sep @ join sep (t # ss)"

text \<open>\<^verbatim>\<open>sep.join(xs)\<close> for a list \<open>xs\<close>, and for any iterable \<open>v\<close>: every item must be a str.\<close>

definition join_list :: "string \<Rightarrow> pyval list \<Rightarrow> exn + string" where
  "join_list sep xs = sbind (the_strs xs) (\<lambda>ss. Inr (join sep ss))"

definition py_join :: "string \<Rightarrow> pyval \<Rightarrow> exn + string" where
  "py_join sep v = sbind (py_iter v) (join_list sep)"

text \<open>\<^verbatim>\<open>v[:n]\<close>: a str and a list can be sliced. (Slicing a dict raises as well; the class of
  that exception depends on the interpreter version and no handler looks at it.)\<close>

definition py_slice_to :: "pyval \<Rightarrow> nat \<Rightarrow> exn + pyval" where
  "py_slice_to v n =
     (case v of
        PyStr s \<Rightarrow> Inr (PyStr (take n s))
      | PyList xs \<Rightarrow> Inr (PyList (take n xs))
      | _ \<Rightarrow> Inl TypeError)"

text \<open>\<^verbatim>\<open>v.replace(old, new)\<close> for one-character \<open>old\<close> and \<open>new\<close>: a str method.\<close>

definition str_replace :: "char \<Rightarrow> char \<Rightarrow> string \<Rightarrow> string" where
  "str_replace old new s = map (\<lambda>c. if c = old then new else c) s"

definition py_replace :: "pyval \<Rightarrow> char \<Rightarrow> char \<Rightarrow> exn + string" where
  "py_replace v old new =
     (case v of PyStr s \<Rightarrow> Inr (str_replace old new s) | _ \<Rightarrow> Inl AttributeError)"

section \<open>The property record (\<^verbatim>\<open>scrape_property_page\<close>, lines 95 to 124)\<close>

text \<open>
  The dictionary the extractor returns has the same 22 keys on every path, so it is a
  record. A field copied from the payload holds whatever value the payload has there.
\<close>

record property_data =
  url :: string
  title :: pyval
  price :: pyval
  currency :: pyval
  location :: pyval
  neighborhood :: pyval
  city :: pyval
  property_type :: pyval
  area :: pyval
  rooms :: pyval
  bathrooms :: pyval
  parking :: pyval
  stratum :: pyval
  status :: pyval
  description :: string
  features :: string
  broker :: pyval
  broker_phone :: pyval
  images :: string
  virtual_tour :: pyval
  property_id :: pyval
  scraped_at :: string

text \<open>Line 98: \<^verbatim>\<open>[img.get('url', '') for img in listing.get('images', []) if img.get('url')]\<close>.\<close>

fun image_urls :: "pyval list \<Rightarrow> exn + pyval list" where
  "image_urls [] = Inr []"
| "image_urls (img # imgs) =
     sbind (py_get img ''url'' PyNone) (\<lambda>c.
       if truthy c
       then sbind (py_get img ''url'' (PyStr '''')) (\<lambda>u.
              sbind (image_urls imgs) (\<lambda>us. Inr (u # us)))
       else image_urls imgs)"

text \<open>Line 116: \<^verbatim>\<open>listing.get('description', '')[:500].replace('\n', ' ') + "..."\<close>.\<close>

definition description_field :: "pyval \<Rightarrow> exn + string" where
  "description_field listing =
     sbind (py_get listing ''description'' (PyStr '''')) (\<lambda>d.
     sbind (py_slice_to d 500) (\<lambda>cut.
     sbind (py_replace cut (CHR 0x0A) (CHR '' '')) (\<lambda>flat.
     Inr (flat @ ''...''))))"

text \<open>
  Lines 95 to 124, in evaluation order. The timestamp \<open>now\<close> is what
  \<^verbatim>\<open>time.strftime\<close> returns; it is read last, after every other entry has been
  evaluated.
\<close>

definition compile_fields :: "string \<Rightarrow> pyval \<Rightarrow> exn + property_data" where
  "compile_fields u listing =
     sbind (py_get listing ''location'' (PyDict [])) (\<lambda>loc.
     sbind (py_get listing ''broker'' (PyDict [])) (\<lambda>brk.
     sbind (sbind (py_get listing ''images'' (PyList [])) py_iter) (\<lambda>imgs.
     sbind (image_urls imgs) (\<lambda>image_list.
     sbind (py_get listing ''title'' (PyStr '''')) (\<lambda>v_title.
     sbind (sbind (py_get listing ''price'' (PyDict [])) (\<lambda>p. py_get p ''value'' (PyStr ''''))) (\<lambda>v_price.
     sbind (sbind (py_get listing ''price'' (PyDict [])) (\<lambda>p. py_get p ''currency'' (PyStr ''COP''))) (\<lambda>v_currency.
     sbind (py_get loc ''formattedAddress'' (PyStr '''')) (\<lambda>v_location.
     sbind (sbind (py_get loc ''neighborhood'' (PyDict [])) (\<lambda>n. py_get n ''name'' (PyStr ''''))) (\<lambda>v_neighborhood.
     sbind (sbind (py_get loc ''city'' (PyDict [])) (\<lambda>c. py_get c ''name'' (PyStr ''''))) (\<lambda>v_city.
     sbind (py_get listing ''propertyType'' (PyStr '''')) (\<lambda>v_property_type.
     sbind (py_get listing ''area'' (PyStr '''')) (\<lambda>v_area.
     sbind (py_get listing ''rooms'' (PyStr '''')) (\<lambda>v_rooms.
     sbind (py_get listing ''bathrooms'' (PyStr '''')) (\<lambda>v_bathrooms.
     sbind (py_get listing ''parking'' (PyStr '''')) (\<lambda>v_parking.
     sbind (py_get listing ''stratum'' (PyStr '''')) (\<lambda>v_stratum.
     sbind (py_get listing ''status'' (PyStr '''')) (\<lambda>v_status.
     sbind (description_field listing) (\<lambda>v_description.
     sbind (sbind (py_get listing ''features'' (PyList [])) (py_join '', '')) (\<lambda>v_features.
     sbind (py_get brk ''name'' (PyStr '''')) (\<lambda>v_broker.
     sbind (py_get brk ''phone'' (PyStr '''')) (\<lambda>v_broker_phone.
     sbind (join_list ''; '' image_list) (\<lambda>v_images.
     sbind (py_get listing ''virtualTourUrl'' (PyStr '''')) (\<lambda>v_virtual_tour.
     sbind (py_get listing ''id'' (PyStr '''')) (\<lambda>v_property_id.
     Inr \<lparr> url = u, title = v_title, price = v_price, currency = v_currency,
           location = v_location, neighborhood = v_neighborhood, city = v_city,
           property_type = v_property_type, area = v_area, rooms = v_rooms,
           bathrooms = v_bathrooms, parking = v_parking, stratum = v_stratum,
           status = v_status, description = v_description, features = v_features,
           broker = v_broker, broker_phone = v_broker_phone, images = v_images,
           virtual_tour = v_virtual_tour, property_id = v_property_id,
           scraped_at = '''' \<rparr>))))))))))))))))))))))))"

section \<open>The browser session and the other collaborators\<close>

text \<open>
  The browser, the clock, the file system and the JSON parser are outside the program.
  Their behaviour is a parameter: a record of operations on an opaque world \<open>'w\<close>. Every
  browser command may raise and may change the world. An element is a handle.
\<close>

type_synonym elem = nat

datatype By = XPATH | CSS_SELECTOR | TAG_NAME

type_synonym locator = "By \<times> string"

datatype condition =
    visibility_of_element_located locator
  | element_to_be_clickable locator
  | presence_of_element_located locator

text \<open>The requests the program sends to its collaborators, in the order it sends them.\<close>

datatype call =
    Chrome "string list" "(string \<times> pyval) list"
  | Get string
  | Until nat condition
  | FindElement locator
  | FindElements locator
  | ElemFindElement elem locator
  | GetAttribute elem string
  | Click elem
  | ExecuteScript string "elem list"
  | SaveScreenshot string
  | PageSource
  | WriteFile string string
  | WriteCsv string "string list" "property_data list"
  | Quit

record 'w driver =
  drv_chrome :: "string list \<Rightarrow> (string \<times> pyval) list \<Rightarrow> 'w \<Rightarrow> (exn + unit) \<times> 'w"
  drv_get :: "string \<Rightarrow> 'w \<Rightarrow> (exn + unit) \<times> 'w"
  drv_until :: "nat \<Rightarrow> condition \<Rightarrow> 'w \<Rightarrow> (exn + elem) \<times> 'w"
  drv_find_element :: "locator \<Rightarrow> 'w \<Rightarrow> (exn + elem) \<times> 'w"
  drv_find_elements :: "locator \<Rightarrow> 'w \<Rightarrow> (exn + elem list) \<times> 'w"
  elem_find_element :: "elem \<Rightarrow> locator \<Rightarrow> 'w \<Rightarrow> (exn + elem) \<times> 'w"
  elem_get_attribute :: "elem \<Rightarrow> string \<Rightarrow> 'w \<Rightarrow> (exn + string option) \<times> 'w"
  elem_click :: "elem \<Rightarrow> 'w \<Rightarrow> (exn + unit) \<times> 'w"
  drv_execute_script :: "string \<Rightarrow> elem list \<Rightarrow> 'w \<Rightarrow> (exn + unit) \<times> 'w"
  drv_save_screenshot :: "string \<Rightarrow> 'w \<Rightarrow> (exn + bool) \<times> 'w"
  drv_page_source :: "'w \<Rightarrow> (exn + string) \<times> 'w"
  drv_quit :: "'w \<Rightarrow> (exn + unit) \<times> 'w"
  file_write :: "string \<Rightarrow> string \<Rightarrow> 'w \<Rightarrow> (exn + unit) \<times> 'w"
  csv_write :: "string \<Rightarrow> string list \<Rightarrow> property_data list \<Rightarrow> 'w \<Rightarrow> (exn + unit) \<times> 'w"
  time_strftime :: "string \<Rightarrow> 'w \<Rightarrow> string \<times> 'w"
  json_loads :: "string \<Rightarrow> exn + pyval"
  set_order :: "string \<Rightarrow> nat"

text \<open>
  The state of a run: the world, the requests sent so far, and the two variables of
  \<^verbatim>\<open>scrape_search_results\<close> that are updated in place and outlive an exception
  (\<^verbatim>\<open>properties\<close>, \<^verbatim>\<open>page\<close>).
\<close>

record 'w state =
  world :: 'w
  trace :: "call list"
  properties :: "property_data list"
  page :: int

type_synonym ('a, 'w) prog = "'w state \<Rightarrow> (exn + 'a) \<times> 'w state"

definition ret :: "'a \<Rightarrow> ('a, 'w) prog" where
  "ret x = (\<lambda>s. (Inr x, s))"

definition bnd :: "('a, 'w) prog \<Rightarrow> ('a \<Rightarrow> ('b, 'w) prog) \<Rightarrow> ('b, 'w) prog" where
  "bnd m f = (\<lambda>s. case m s of (Inl e, s') \<Rightarrow> (Inl e, s') | (Inr x, s') \<Rightarrow> f x s')"

definition lift :: "exn + 'a \<Rightarrow> ('a, 'w) prog" where
  "lift r = (\<lambda>s. (r, s))"

text \<open>\<^verbatim>\<open>try: m  except <classes>: h\<close>; \<open>handles\<close> says which exceptions the clause names.\<close>

definition try_except :: "('a, 'w) prog \<Rightarrow> (exn \<Rightarrow> bool) \<Rightarrow> (exn \<Rightarrow> ('a, 'w) prog) \<Rightarrow> ('a, 'w) prog" where
  "try_except m handles h =
     (\<lambda>s. case m s of
             (Inl e, s') \<Rightarrow> if handles e then h e s' else (Inl e, s')
           | (Inr x, s') \<Rightarrow> (Inr x, s'))"

text \<open>\<^verbatim>\<open>try: m  finally: fin\<close>: \<open>fin\<close> runs on every path; its own exception replaces the
  outcome of \<open>m\<close>.\<close>

definition try_finally :: "('a, 'w) prog \<Rightarrow> (unit, 'w) prog \<Rightarrow> ('a, 'w) prog" where
  "try_finally m fin =
     (\<lambda>s. case m s of
             (r, s') \<Rightarrow> (case fin s' of (Inl e, s'') \<Rightarrow> (Inl e, s'') | (Inr u, s'') \<Rightarrow> (r, s'')))"

definition any_exception :: "exn \<Rightarrow> bool" where
  "any_exception e = True"

definition invoke :: "call \<Rightarrow> ('w \<Rightarrow> (exn + 'a) \<times> 'w) \<Rightarrow> ('a, 'w) prog" where
  "invoke c op = (\<lambda>s. case op (world s) of (r, w') \<Rightarrow> (r, s\<lparr>world := w', trace := trace s @ [c]\<rparr>))"

definition strftime :: "'w driver \<Rightarrow> string \<Rightarrow> (string, 'w) prog" where
  "strftime D fmt = (\<lambda>s. case time_strftime D fmt (world s) of (t, w') \<Rightarrow> (Inr t, s\<lparr>world := w'\<rparr>))"

definition driver_get :: "'w driver \<Rightarrow> string \<Rightarrow> (unit, 'w) prog" where
  "driver_get D u = invoke (Get u) (drv_get D u)"

definition wait_until :: "'w driver \<Rightarrow> nat \<Rightarrow> condition \<Rightarrow> (elem, 'w) prog" where
  "wait_until D timeout c = invoke (Until timeout c) (drv_until D timeout c)"

definition find_element :: "'w driver \<Rightarrow> locator \<Rightarrow> (elem, 'w) prog" where
  "find_element D loc = invoke (FindElement loc) (drv_find_element D loc)"

definition find_elements :: "'w driver \<Rightarrow> locator \<Rightarrow> (elem list, 'w) prog" where
  "find_elements D loc = invoke (FindElements loc) (drv_find_elements D loc)"

definition find_element_in :: "'w driver \<Rightarrow> elem \<Rightarrow> locator \<Rightarrow> (elem, 'w) prog" where
  "find_element_in D el loc = invoke (ElemFindElement el loc) (elem_find_element D el loc)"

definition get_attribute :: "'w driver \<Rightarrow> elem \<Rightarrow> string \<Rightarrow> (string option, 'w) prog" where
  "get_attribute D el a = invoke (GetAttribute el a) (elem_get_attribute D el a)"

definition click :: "'w driver \<Rightarrow> elem \<Rightarrow> (unit, 'w) prog" where
  "click D el = invoke (Click el) (elem_click D el)"

definition execute_script :: "'w driver \<Rightarrow> string \<Rightarrow> elem list \<Rightarrow> (unit, 'w) prog" where
  "execute_script D script args = invoke (ExecuteScript script args) (drv_execute_script D script args)"

definition save_screenshot :: "'w driver \<Rightarrow> string \<Rightarrow> (bool, 'w) prog" where
  "save_screenshot D filename = invoke (SaveScreenshot filename) (drv_save_screenshot D filename)"

definition page_source :: "'w driver \<Rightarrow> (string, 'w) prog" where
  "page_source D = invoke PageSource (drv_page_source D)"

definition write_file :: "'w driver \<Rightarrow> string \<Rightarrow> string \<Rightarrow> (unit, 'w) prog" where
  "write_file D path text = invoke (WriteFile path text) (file_write D path text)"

definition write_csv :: "'w driver \<Rightarrow> string \<Rightarrow> string list \<Rightarrow> property_data list \<Rightarrow> (unit, 'w) prog" where
  "write_csv D path header rows = invoke (WriteCsv path header rows) (csv_write D path header rows)"

definition quit :: "'w driver \<Rightarrow> (unit, 'w) prog" where
  "quit D = invoke Quit (drv_quit D)"

section \<open>Configuration (lines 14 to 19)\<close>

definition SEARCH_URL :: string where
  "SEARCH_URL = ''https://www.metrocuadrado.com/apartamento-apartaestudio-casa/venta/nuevo/bogota?search=form''"

definition MAX_PAGES :: int where
  "MAX_PAGES = 3"

definition OUTPUT_FILE :: string where
  "OUTPUT_FILE = ''metrocuadrado_properties.csv''"

definition HEADLESS :: bool where
  "HEADLESS = True"

definition DEBUG_DIR :: string where
  "DEBUG_DIR = ''debug_screenshots''"

section \<open>\<^verbatim>\<open>init_driver\<close> (lines 26 to 53) and \<^verbatim>\<open>take_screenshot\<close> (lines 56 to 62)\<close>

definition chrome_arguments :: "string list" where
  "chrome_arguments =
     (if HEADLESS then [''--headless=new''] else []) @
     [''--disable-blink-features=AutomationControlled'',
      ''--disable-infobars'',
      ''--disable-dev-shm-usage'',
      ''--no-sandbox'',
      ''--window-size=1920,1080'',
      ''--ignore-certificate-errors'',
      ''--allow-running-insecure-content'',
      ''user-agent=Mozilla/5.0 (Windows NT 10.0; Win64; x64) AppleWebKit/537.36 (KHTML, like Gecko) Chrome/125.0.0.0 Safari/537.36'']"

definition chrome_experimental_options :: "(string \<times> pyval) list" where
  "chrome_experimental_options =
     [(''excludeSwitches'', PyList [PyStr ''enable-automation'']),
      (''useAutomationExtension'', PyBool False)]"

definition init_driver :: "'w driver \<Rightarrow> (unit, 'w) prog" where
  "init_driver D =
     bnd (invoke (Chrome chrome_arguments chrome_experimental_options)
            (drv_chrome D chrome_arguments chrome_experimental_options)) (\<lambda>driver.
     execute_script D ''Object.defineProperty(navigator, 'webdriver', {get: () => undefined})'' [])"

definition take_screenshot :: "'w driver \<Rightarrow> string \<Rightarrow> (string, 'w) prog" where
  "take_screenshot D name =
     bnd (strftime D ''%Y%m%d-%H%M%S'') (\<lambda>timestamp.
     bnd (save_screenshot D (DEBUG_DIR @ ''/'' @ name @ ''_'' @ timestamp @ ''.png'')) (\<lambda>saved.
     ret (DEBUG_DIR @ ''/'' @ name @ ''_'' @ timestamp @ ''.png'')))"

section \<open>\<^verbatim>\<open>scrape_property_page\<close> (lines 65 to 129)\<close>

text \<open>Lines 72 to 80: wait for the title, and on a timeout for the detail container.\<close>

definition wait_for_page :: "'w driver \<Rightarrow> (elem, 'w) prog" where
  "wait_for_page D =
     try_except
       (wait_until D 15 (visibility_of_element_located (XPATH, ''//h1[@data-testid='title-listing-detail']'')))
       (\<lambda>e. e = TimeoutException)
       (\<lambda>e. wait_until D 15 (visibility_of_element_located (XPATH, ''//div[@class='listing-detail']'')))"

text \<open>Lines 83 to 88: the script element, its text parsed as JSON (\<^verbatim>\<open>json.loads(None)\<close>
  is a \<^verbatim>\<open>TypeError\<close>), and the nested listing object.\<close>

definition loads :: "'w driver \<Rightarrow> string option \<Rightarrow> exn + pyval" where
  "loads D text = (case text of None \<Rightarrow> Inl TypeError | Some t \<Rightarrow> json_loads D t)"

definition listing_of :: "pyval \<Rightarrow> exn + pyval" where
  "listing_of json_data =
     sbind (sbind (py_get json_data ''props'' (PyDict [])) (\<lambda>props. py_get props ''pageProps'' (PyDict [])))
       (\<lambda>page_props. py_get page_props ''listing'' (PyDict []))"

definition read_listing :: "'w driver \<Rightarrow> (pyval, 'w) prog" where
  "read_listing D =
     bnd (find_element D (XPATH, ''//script[@id='__NEXT_DATA__']'')) (\<lambda>script_element.
     bnd (get_attribute D script_element ''textContent'') (\<lambda>text.
     bnd (lift (loads D text)) (\<lambda>json_data.
     lift (listing_of json_data))))"

text \<open>Lines 90 to 124: no listing, or the record stamped with the time.\<close>

definition compile_property :: "'w driver \<Rightarrow> string \<Rightarrow> pyval \<Rightarrow> (property_data option, 'w) prog" where
  "compile_property D u listing =
     (if \<not> truthy listing
      then bnd (take_screenshot D ''no_listing_data'') (\<lambda>f. ret None)
      else bnd (lift (compile_fields u listing)) (\<lambda>r.
           bnd (strftime D ''%Y-%m-%d %H:%M:%S'') (\<lambda>now.
           ret (Some (r\<lparr>scraped_at := now\<rparr>)))))"

definition scrape_property_page :: "'w driver \<Rightarrow> string \<Rightarrow> (property_data option, 'w) prog" where
  "scrape_property_page D u =
     bnd (driver_get D u) (\<lambda>nav.
     try_except
       (bnd (wait_for_page D) (\<lambda>ready.
        bnd (read_listing D) (\<lambda>listing.
        compile_property D u listing)))
       any_exception
       (\<lambda>e. bnd (take_screenshot D ''property_error'') (\<lambda>f. ret None)))"

section \<open>\<^verbatim>\<open>scrape_search_results\<close> (lines 132 to 281)\<close>

text \<open>Decimal digits of \<^verbatim>\<open>page\<close> in the names of the debug files.\<close>

fun str_nat :: "nat \<Rightarrow> string" where
  "str_nat n =
     (if n < 10 then [''0123456789'' ! n]
      else str_nat (n div 10) @ [''0123456789'' ! (n mod 10)])"

declare str_nat.simps [simp del]

definition str_int :: "int \<Rightarrow> string" where
  "str_int i = (if i < 0 then ''-'' @ str_nat (nat (- i)) else str_nat (nat i))"

text \<open>\<^verbatim>\<open>sub in s\<close> on strings.\<close>

fun str_in :: "string \<Rightarrow> string \<Rightarrow> bool" where
  "str_in sub [] = (sub = [])"
| "str_in sub (c # cs) = (take (length sub) (c # cs) = sub \<or> str_in sub cs)"

text \<open>The variables \<^verbatim>\<open>page\<close> and \<^verbatim>\<open>properties\<close>.\<close>

definition get_page :: "(int, 'w) prog" where
  "get_page = (\<lambda>s. (Inr (page s), s))"

definition set_page :: "int \<Rightarrow> (unit, 'w) prog" where
  "set_page p = (\<lambda>s. (Inr (), s\<lparr>page := p\<rparr>))"

definition get_properties :: "(property_data list, 'w) prog" where
  "get_properties = (\<lambda>s. (Inr (properties s), s))"

definition set_properties :: "property_data list \<Rightarrow> (unit, 'w) prog" where
  "set_properties ps = (\<lambda>s. (Inr (), s\<lparr>properties := ps\<rparr>))"

definition append_property :: "property_data \<Rightarrow> (unit, 'w) prog" where
  "append_property r = (\<lambda>s. (Inr (), s\<lparr>properties := properties s @ [r]\<rparr>))"

text \<open>Lines 141 to 151: the cookie dialog, best effort.\<close>

definition accept_cookies :: "'w driver \<Rightarrow> (unit, 'w) prog" where
  "accept_cookies D =
     try_except
       (bnd (wait_until D 5 (element_to_be_clickable (XPATH, ''//button[contains(., 'Aceptar todo')]''))) (\<lambda>accept_button.
        bnd (click D accept_button) (\<lambda>clicked.
        bnd (take_screenshot D ''after_cookies'') (\<lambda>f. ret ()))))
       any_exception
       (\<lambda>e. ret ())"

text \<open>Lines 162 to 167: scroll twice, then a screenshot.\<close>

definition scroll_page :: "'w driver \<Rightarrow> (unit, 'w) prog" where
  "scroll_page D =
     bnd (execute_script D ''window.scrollTo(0, document.body.scrollHeight);'' []) (\<lambda>first.
     bnd (execute_script D ''window.scrollTo(0, document.body.scrollHeight);'' []) (\<lambda>second.
     bnd get_page (\<lambda>p.
     bnd (take_screenshot D (''after_scroll_page_'' @ str_int p)) (\<lambda>f. ret ()))))"

text \<open>Lines 169 to 194: the three card selectors. \<^verbatim>\<open>cards\<close> keeps its value when a method
  raises \<^verbatim>\<open>NoSuchElementException\<close>; any other exception leaves the block.\<close>

definition by_testid :: locator where
  "by_testid = (CSS_SELECTOR, ''div[data-testid='m2-card-listings-container']'')"

definition by_class :: locator where
  "by_class = (CSS_SELECTOR, ''div.m2-card-listing'')"

definition by_generic_card :: locator where
  "by_generic_card = (CSS_SELECTOR, ''div[class*='card']'')"

definition discover_cards :: "'w driver \<Rightarrow> (elem list, 'w) prog" where
  "discover_cards D =
     bnd (try_except (find_elements D by_testid)
            (\<lambda>e. e = NoSuchElementException) (\<lambda>e. ret [])) (\<lambda>cards1.
     bnd (if cards1 = []
          then try_except (find_elements D by_class)
                 (\<lambda>e. e = NoSuchElementException) (\<lambda>e. ret cards1)
          else ret cards1) (\<lambda>cards2.
     if cards2 = []
     then try_except (find_elements D by_generic_card)
            (\<lambda>e. e = NoSuchElementException) (\<lambda>e. ret cards2)
     else ret cards2))"

text \<open>Lines 196 to 204: no cards; the page source is saved and the loop is left.\<close>

datatype flow = Break | Continue

definition no_cards :: "'w driver \<Rightarrow> (flow, 'w) prog" where
  "no_cards D =
     bnd (page_source D) (\<lambda>source.
     bnd get_page (\<lambda>p.
     bnd (write_file D (DEBUG_DIR @ ''/page_'' @ str_int p @ ''_source.html'') source) (\<lambda>written.
     bnd (take_screenshot D (''no_cards_page_'' @ str_int p)) (\<lambda>f. ret Break))))"

text \<open>Lines 206 to 222: one link per card; a card whose link cannot be read is skipped.\<close>

definition accepted_href :: "string option \<Rightarrow> bool" where
  "accepted_href href =
     (case href of
        None \<Rightarrow> False
      | Some h \<Rightarrow> h \<noteq> [] \<and> (str_in ''/inmueble/'' h \<or> str_in ''/proyecto/'' h))"

definition card_link :: "'w driver \<Rightarrow> elem \<Rightarrow> string list \<Rightarrow> (string list, 'w) prog" where
  "card_link D a_card links =
     try_except
       (bnd (try_except (find_element_in D a_card (TAG_NAME, ''a''))
               (\<lambda>e. e = NoSuchElementException)
               (\<lambda>e. find_element_in D a_card (CSS_SELECTOR, ''a''))) (\<lambda>link.
        bnd (get_attribute D link ''href'') (\<lambda>href.
        ret (if accepted_href href then links @ [the href] else links))))
       any_exception
       (\<lambda>e. ret links)"

fun card_links :: "'w driver \<Rightarrow> elem list \<Rightarrow> string list \<Rightarrow> (string list, 'w) prog" where
  "card_links D [] links = ret links"
| "card_links D (a_card # cards) links = bnd (card_link D a_card links) (card_links D cards)"

text \<open>Line 225: \<^verbatim>\<open>list(set(links))\<close>. The order in which a set of strings is iterated is
  not fixed by the language; \<open>set_order\<close> ranks the strings, and any order of the distinct
  links is the result for some ranking.\<close>

definition list_set :: "'w driver \<Rightarrow> string list \<Rightarrow> string list" where
  "list_set D links = sort_key (set_order D) (remdups links)"

definition unique_links :: "'w driver \<Rightarrow> elem list \<Rightarrow> (string list, 'w) prog" where
  "unique_links D cards = bnd (card_links D cards []) (\<lambda>links. ret (list_set D links))"

text \<open>Lines 233 to 239: every link in turn; a record is appended, \<^verbatim>\<open>None\<close> is skipped.\<close>

fun scrape_links :: "'w driver \<Rightarrow> string list \<Rightarrow> (unit, 'w) prog" where
  "scrape_links D [] = ret ()"
| "scrape_links D (u # us) =
     bnd (scrape_property_page D u) (\<lambda>property_data.
     bnd (case property_data of Some r \<Rightarrow> append_property r | None \<Rightarrow> ret ()) (\<lambda>appended.
     scrape_links D us))"

text \<open>Lines 246 to 252: the next-page control, by three locators in turn.\<close>

definition locate_next :: "'w driver \<Rightarrow> (elem, 'w) prog" where
  "locate_next D =
     try_except (find_element D (XPATH, ''//a[@aria-label='Siguiente p'' @ [CHR 0xC3, CHR 0xA1] @ ''gina']''))
       any_exception
       (\<lambda>e. try_except (find_element D (XPATH, ''//a[contains(@class, 'm2-pagination__next')]''))
               any_exception
               (\<lambda>e. find_element D (XPATH, ''//a[contains(text(), 'Siguiente')]'')))"

text \<open>Lines 254 to 268. A \<^verbatim>\<open>WebElement\<close> is always true, so the \<^verbatim>\<open>else\<close> branch is never
  taken.\<close>

definition elem_truthy :: "elem \<Rightarrow> bool" where
  "elem_truthy el = True"

definition click_and_wait :: "'w driver \<Rightarrow> elem \<Rightarrow> (elem, 'w) prog" where
  "click_and_wait D next_button =
     bnd (execute_script D ''arguments[0].scrollIntoView();'' [next_button]) (\<lambda>scrolled.
     bnd (execute_script D ''arguments[0].click();'' [next_button]) (\<lambda>clicked.
     wait_until D 15 (presence_of_element_located
       (XPATH, ''//div[contains(@class, 'm2-card-listing') or @data-testid='m2-card-listings-container']''))))"

definition click_next :: "'w driver \<Rightarrow> elem \<Rightarrow> (flow, 'w) prog" where
  "click_next D next_button =
     (if elem_truthy next_button
      then bnd (click_and_wait D next_button) (\<lambda>present.
           bnd get_page (\<lambda>p.
           bnd (set_page (p + 1)) (\<lambda>incremented.
           bnd (take_screenshot D (''after_navigation_page_'' @ str_int (p + 1))) (\<lambda>f.
           ret Continue))))
      else ret Break)"

text \<open>Lines 241 to 274.\<close>

definition next_page :: "'w driver \<Rightarrow> (flow, 'w) prog" where
  "next_page D =
     bnd get_page (\<lambda>p.
     if p < MAX_PAGES
     then try_except (bnd (locate_next D) (click_next D))
            any_exception
            (\<lambda>e. bnd (take_screenshot D ''next_page_error'') (\<lambda>f. ret Break))
     else ret Break)"

text \<open>Lines 157 to 279: the body of the loop, which says whether the loop goes on.\<close>

definition process_page :: "'w driver \<Rightarrow> (flow, 'w) prog" where
  "process_page D =
     try_except
       (bnd (scroll_page D) (\<lambda>scrolled.
        bnd (discover_cards D) (\<lambda>cards.
        if cards = [] then no_cards D
        else bnd (unique_links D cards) (\<lambda>links.
             if links = [] then bnd (take_screenshot D ''no_valid_links'') (\<lambda>f. ret Break)
             else bnd (scrape_links D links) (\<lambda>scraped. next_page D)))))
       any_exception
       (\<lambda>e. bnd get_page (\<lambda>p.
            bnd (take_screenshot D (''page_'' @ str_int p @ ''_error'')) (\<lambda>f. ret Break)))"

section \<open>What a stage leaves unchanged\<close>

text \<open>
  Only \<^verbatim>\<open>page += 1\<close> changes \<^verbatim>\<open>page\<close> and only \<^verbatim>\<open>properties.append\<close> changes
  \<^verbatim>\<open>properties\<close>. \<open>keeps var m\<close> says that \<open>m\<close> leaves the variable \<open>var\<close> as it
  found it, whether it returns or raises.
\<close>

definition keeps :: "('w state \<Rightarrow> 'b) \<Rightarrow> ('a, 'w) prog \<Rightarrow> bool" where
  "keeps var m = (\<forall>s. var (snd (m s)) = var s)"

lemma keepsD: "keeps var m \<Longrightarrow> m s = (r, s') \<Longrightarrow> var s' = var s"
  by (metis keeps_def snd_conv)

lemma keeps_ret: "keeps var (ret x)"
  by (simp add: keeps_def ret_def)

lemma keeps_lift: "keeps var (lift r)"
  by (simp add: keeps_def lift_def)

lemma keeps_bnd: "keeps var m \<Longrightarrow> (\<And>x. keeps var (f x)) \<Longrightarrow> keeps var (bnd m f)"
  by (auto simp: keeps_def bnd_def split: prod.splits sum.splits) (metis snd_conv)+

lemma keeps_try_except: "keeps var m \<Longrightarrow> (\<And>e. keeps var (h e)) \<Longrightarrow> keeps var (try_except m c h)"
  by (auto simp: keeps_def try_except_def split: prod.splits sum.splits) (metis snd_conv)+

lemma keeps_if: "keeps var m \<Longrightarrow> keeps var n \<Longrightarrow> keeps var (if b then m else n)"
  by simp

lemma keeps_page_invoke: "keeps page (invoke c op)"
  by (simp add: keeps_def invoke_def split: prod.splits)

lemma keeps_properties_invoke: "keeps properties (invoke c op)"
  by (simp add: keeps_def invoke_def split: prod.splits)

lemma keeps_page_strftime: "keeps page (strftime D fmt)"
  by (simp add: keeps_def strftime_def split: prod.splits)

lemma keeps_properties_strftime: "keeps properties (strftime D fmt)"
  by (simp add: keeps_def strftime_def split: prod.splits)

lemma keeps_get_page: "keeps var get_page"
  by (simp add: keeps_def get_page_def)

lemma keeps_page_append_property: "keeps page (append_property r)"
  by (simp add: keeps_def append_property_def)

lemma keeps_properties_set_page: "keeps properties (set_page p)"
  by (simp add: keeps_def set_page_def)

lemmas keeps_intros =
  keeps_ret keeps_lift keeps_bnd keeps_try_except keeps_if keeps_page_invoke keeps_properties_invoke
  keeps_page_strftime keeps_properties_strftime keeps_get_page keeps_page_append_property
  keeps_properties_set_page

lemmas driver_defs =
  driver_get_def wait_until_def find_element_def find_elements_def find_element_in_def
  get_attribute_def click_def execute_script_def save_screenshot_def page_source_def
  write_file_def write_csv_def quit_def

lemma keeps_page_take_screenshot: "keeps page (take_screenshot D name)"
  unfolding take_screenshot_def driver_defs by (intro keeps_intros)

lemma keeps_properties_take_screenshot: "keeps properties (take_screenshot D name)"
  unfolding take_screenshot_def driver_defs by (intro keeps_intros)

lemma keeps_page_scrape_property_page: "keeps page (scrape_property_page D u)"
  unfolding scrape_property_page_def wait_for_page_def read_listing_def compile_property_def driver_defs
  by (intro keeps_intros keeps_page_take_screenshot)


lemma keeps_page_scrape_links: "keeps page (scrape_links D us)"
  by (induction us) (auto intro!: keeps_intros keeps_page_scrape_property_page split: option.splits)


lemma keeps_page_stages:
  "keeps page (scroll_page D)" "keeps page (discover_cards D)" "keeps page (no_cards D)"
  "keeps page (card_link D c links)" "keeps page (locate_next D)" "keeps page (accept_cookies D)"
  unfolding scroll_page_def discover_cards_def no_cards_def card_link_def locate_next_def
    accept_cookies_def driver_defs
  by (intro keeps_intros keeps_page_take_screenshot)+

lemma keeps_properties_stages:
  "keeps properties (scroll_page D)" "keeps properties (discover_cards D)"
  "keeps properties (no_cards D)" "keeps properties (card_link D c links)"
  "keeps properties (locate_next D)" "keeps properties (accept_cookies D)"
  unfolding scroll_page_def discover_cards_def no_cards_def card_link_def locate_next_def
    accept_cookies_def driver_defs
  by (intro keeps_intros keeps_properties_take_screenshot)+

lemma keeps_page_card_links: "keeps page (card_links D cards links)"
  by (induction cards arbitrary: links) (auto intro!: keeps_intros keeps_page_stages)


lemma keeps_page_unique_links: "keeps page (unique_links D cards)"
  unfolding unique_links_def by (intro keeps_intros keeps_page_card_links)


lemma keeps_page_click_and_wait: "keeps page (click_and_wait D b)"
  unfolding click_and_wait_def driver_defs by (intro keeps_intros)

lemma keeps_properties_click_and_wait: "keeps properties (click_and_wait D b)"
  unfolding click_and_wait_def driver_defs by (intro keeps_intros)

lemma keeps_properties_click_next: "keeps properties (click_next D b)"
  unfolding click_next_def
  by (intro keeps_intros keeps_properties_take_screenshot keeps_properties_click_and_wait)

lemma keeps_properties_next_page: "keeps properties (next_page D)"
  unfolding next_page_def
  by (intro keeps_intros keeps_properties_take_screenshot keeps_properties_click_next
      keeps_properties_stages)

lemma click_next_Continue:
  assumes "click_next D b s = (Inr Continue, s')"
  shows "page s' = page s + 1"
proof -
  have k: "\<And>m r t t'. keeps page m \<Longrightarrow> m t = (r, t') \<Longrightarrow> page t' = page t"
    by (rule keepsD)
  note ks = k[OF keeps_page_click_and_wait] k[OF keeps_page_take_screenshot]
  from assms show ?thesis
    by (auto simp: click_next_def bnd_def ret_def get_page_def set_page_def
        split: prod.splits sum.splits if_splits dest!: ks)
qed

lemma next_page_Continue:
  assumes "next_page D s = (Inr Continue, s')"
  shows "page s < MAX_PAGES \<and> page s' = page s + 1"
proof -
  have k: "\<And>m r t t'. keeps page m \<Longrightarrow> m t = (r, t') \<Longrightarrow> page t' = page t"
    by (rule keepsD)
  note ks = k[OF keeps_page_stages(5)] k[OF keeps_page_take_screenshot]
  from assms show ?thesis
    by (auto simp: next_page_def bnd_def ret_def get_page_def try_except_def
        split: prod.splits sum.splits if_splits dest!: ks click_next_Continue)
qed

lemma no_cards_Break:
  assumes "no_cards D s = (Inr y, s')"
  shows "y = Break"
  using assms
  by (auto simp: no_cards_def bnd_def ret_def get_page_def split: prod.splits sum.splits)

lemma process_page_Continue:
  assumes "process_page D s = (Inr Continue, s')"
  shows "page s < MAX_PAGES \<and> page s' = page s + 1"
proof -
  have k: "\<And>m r t t'. keeps page m \<Longrightarrow> m t = (r, t') \<Longrightarrow> page t' = page t"
    by (rule keepsD)
  note ks = k[OF keeps_page_stages(1)] k[OF keeps_page_stages(2)] no_cards_Break
    k[OF keeps_page_unique_links] k[OF keeps_page_scrape_links] k[OF keeps_page_take_screenshot]
  from assms show ?thesis
    by (auto simp: process_page_def bnd_def ret_def get_page_def try_except_def
        split: prod.splits sum.splits if_splits dest!: ks next_page_Continue)
qed

section \<open>The loop (line 156) and the rest of \<^verbatim>\<open>scrape_search_results\<close>\<close>

text \<open>
  \<^verbatim>\<open>while page <= MAX_PAGES\<close>. The loop goes on only after \<^verbatim>\<open>page += 1\<close> below the limit,
  which is why it terminates. Next to the outcome, \<open>page_loop\<close> counts how often the body
  ran; the program has no such counter, it is there to state the bound on the pages
  visited.
\<close>

function page_loop :: "'w driver \<Rightarrow> 'w state \<Rightarrow> nat \<times> (exn + unit) \<times> 'w state" where
  "page_loop D s =
     (if page s \<le> MAX_PAGES
      then (case process_page D s of
              (Inr Continue, s') \<Rightarrow> (case page_loop D s' of (n, r) \<Rightarrow> (Suc n, r))
            | (Inr Break, s') \<Rightarrow> (1, Inr (), s')
            | (Inl e, s') \<Rightarrow> (1, Inl e, s'))
      else (0, Inr (), s))"
  by pat_completeness auto
termination
proof (relation "measure (\<lambda>(D, s). nat (MAX_PAGES + 1 - page s))")
  show "wf (measure (\<lambda>(D, s). nat (MAX_PAGES + 1 - page s)))" by simp
next
  fix D :: "'w driver" and s x1 s' f
  assume "page s \<le> MAX_PAGES" "(x1, s') = process_page D s" "x1 = Inr f" "f = Continue"
  then have "process_page D s = (Inr Continue, s')" by simp
  from process_page_Continue[OF this]
  show "((D, s'), (D, s)) \<in> measure (\<lambda>(D, s). nat (MAX_PAGES + 1 - page s))" by simp
qed

declare page_loop.simps [simp del]

definition while_pages :: "'w driver \<Rightarrow> (unit, 'w) prog" where
  "while_pages D s = snd (page_loop D s)"

definition pages_visited :: "'w driver \<Rightarrow> 'w state \<Rightarrow> nat" where
  "pages_visited D s = fst (page_loop D s)"

text \<open>Lines 134 to 154, the loop, and line 281.\<close>

definition scrape_search_results :: "'w driver \<Rightarrow> (property_data list, 'w) prog" where
  "scrape_search_results D =
     bnd (driver_get D SEARCH_URL) (\<lambda>nav.
     bnd (take_screenshot D ''initial_page'') (\<lambda>f.
     bnd (accept_cookies D) (\<lambda>cookies.
     bnd (set_properties []) (\<lambda>no_properties.
     bnd (set_page 1) (\<lambda>first_page.
     bnd (while_pages D) (\<lambda>done.
     get_properties))))))"

section \<open>\<^verbatim>\<open>main\<close> (lines 284 to 307)\<close>

text \<open>The keys of a record, in the order of the dictionary literal: the header of the CSV
  file (\<^verbatim>\<open>results[0].keys()\<close>).\<close>

definition field_names :: "string list" where
  "field_names =
     [''url'', ''title'', ''price'', ''currency'', ''location'', ''neighborhood'', ''city'',
      ''property_type'', ''area'', ''rooms'', ''bathrooms'', ''parking'', ''stratum'',
      ''status'', ''description'', ''features'', ''broker'', ''broker_phone'', ''images'',
      ''virtual_tour'', ''property_id'', ''scraped_at'']"

definition save_results :: "'w driver \<Rightarrow> property_data list \<Rightarrow> (unit, 'w) prog" where
  "save_results D results =
     (if results \<noteq> [] then write_csv D OUTPUT_FILE field_names results else ret ())"

definition main :: "'w driver \<Rightarrow> (unit, 'w) prog" where
  "main D =
     bnd (init_driver D) (\<lambda>driver.
     try_finally
       (try_except
          (bnd (scrape_search_results D) (save_results D))
          any_exception
          (\<lambda>e. bnd (take_screenshot D ''main_error'') (\<lambda>f. ret ())))
       (quit D))"

section \<open>Properties of the record\<close>





text \<open>The record of a listing that has none of the keys the extractor reads, before the
  time stamp is set.\<close>

definition default_record :: "string \<Rightarrow> property_data" where
  "default_record u =
     \<lparr> url = u, title = PyStr '''', price = PyStr '''', currency = PyStr ''COP'',
       location = PyStr '''', neighborhood = PyStr '''', city = PyStr '''',
       property_type = PyStr '''', area = PyStr '''', rooms = PyStr '''',
       bathrooms = PyStr '''', parking = PyStr '''', stratum = PyStr '''',
       status = PyStr '''', description = ''...'', features = '''',
       broker = PyStr '''', broker_phone = PyStr '''', images = '''',
       virtual_tour = PyStr '''', property_id = PyStr '''', scraped_at = '''' \<rparr>"






lemmas py_defs = sbind_def py_get_def dict_get_def py_iter_def join_list_def py_join_def
  py_slice_to_def py_replace_def str_replace_def description_field_def

























section \<open>A sample site\<close>

text \<open>
  Concrete collaborators, to run the program on. The world is the address the browser
  shows. \<open>blank_browser\<close> finds nothing anywhere. \<open>demo_site\<close> has one search page whose
  cards are found by the class selector only; four cards link to two listings (one of
  them twice) and to a help page, every listing page carries the same payload, and there
  is no next page. \<open>broken_payload_site\<close> is the same site with payloads that do not parse,
  \<open>flaky_site\<close> the same site where opening the first listing fails, and \<open>endless_site\<close>
  a site with one card on every search page and a next page after every page.
\<close>

definition blank_browser :: "string driver" where
  "blank_browser =
     \<lparr> drv_chrome = (\<lambda>args opts w. (Inr (), w)),
       drv_get = (\<lambda>u w. (Inr (), u)),
       drv_until = (\<lambda>t c w. (Inl TimeoutException, w)),
       drv_find_element = (\<lambda>loc w. (Inl NoSuchElementException, w)),
       drv_find_elements = (\<lambda>loc w. (Inr [], w)),
       elem_find_element = (\<lambda>el loc w. (Inl NoSuchElementException, w)),
       elem_get_attribute = (\<lambda>el a w. (Inr None, w)),
       elem_click = (\<lambda>el w. (Inr (), w)),
       drv_execute_script = (\<lambda>script args w. (Inr (), w)),
       drv_save_screenshot = (\<lambda>f w. (Inr True, w)),
       drv_page_source = (\<lambda>w. (Inr ''<html></html>'', w)),
       drv_quit = (\<lambda>w. (Inr (), w)),
       file_write = (\<lambda>path text w. (Inr (), w)),
       csv_write = (\<lambda>path header rows w. (Inr (), w)),
       time_strftime = (\<lambda>fmt w. (''now'', w)),
       json_loads = (\<lambda>t. Inl JSONDecodeError),
       set_order = length \<rparr>"

definition demo_payload :: pyval where
  "demo_payload =
     PyDict [(''props'', PyDict [(''pageProps'', PyDict [(''listing'',
       PyDict [(''title'', PyStr ''Apartamento''), (''rooms'', PyInt 3)])])])]"

definition demo_site :: "string driver" where
  "demo_site =
     blank_browser
     \<lparr> drv_until := (\<lambda>t c w.
         if c = visibility_of_element_located (XPATH, ''//h1[@data-testid='title-listing-detail']'')
            \<and> w \<noteq> SEARCH_URL
         then (Inr 30, w) else (Inl TimeoutException, w)),
       drv_find_element := (\<lambda>loc w.
         if loc = (XPATH, ''//script[@id='__NEXT_DATA__']'') \<and> w \<noteq> SEARCH_URL
         then (Inr 20, w) else (Inl NoSuchElementException, w)),
       drv_find_elements := (\<lambda>loc w.
         if loc = by_class \<and> w = SEARCH_URL then (Inr [1, 2, 3, 4], w) else (Inr [], w)),
       elem_find_element := (\<lambda>el loc w.
         if loc = (TAG_NAME, ''a'') \<and> el \<in> {1, 2, 3, 4} then (Inr (el + 10), w)
         else (Inl NoSuchElementException, w)),
       elem_get_attribute := (\<lambda>el a w.
         if a = ''href'' \<and> (el = 11 \<or> el = 12) then (Inr (Some ''https://m2.co/inmueble/1''), w)
         else if a = ''href'' \<and> el = 13 then (Inr (Some ''https://m2.co/proyecto/2''), w)
         else if a = ''href'' \<and> el = 14 then (Inr (Some ''https://m2.co/ayuda''), w)
         else if a = ''textContent'' \<and> el = 20 then (Inr (Some ''{...}''), w)
         else (Inr None, w)),
       json_loads := (\<lambda>t. if t = ''{...}'' then Inr demo_payload else Inl JSONDecodeError) \<rparr>"

definition start :: "string state" where
  "start = \<lparr> world = '''', trace = [], properties = [], page = 0 \<rparr>"

definition broken_payload_site :: "string driver" where
  "broken_payload_site = demo_site\<lparr> json_loads := (\<lambda>t. Inl JSONDecodeError) \<rparr>"

definition flaky_site :: "string driver" where
  "flaky_site =
     demo_site\<lparr> drv_get := (\<lambda>u w.
       if u = ''https://m2.co/inmueble/1'' then (Inl WebDriverException, w) else (Inr (), u)) \<rparr>"

definition demo_record :: "string \<Rightarrow> property_data" where
  "demo_record u =
     (default_record u)\<lparr> title := PyStr ''Apartamento'', rooms := PyInt 3, scraped_at := ''now'' \<rparr>"

definition endless_site :: "string driver" where
  "endless_site =
     demo_site
     \<lparr> drv_find_element := (\<lambda>loc w.
         if loc = (XPATH, ''//script[@id='__NEXT_DATA__']'') \<and> w \<noteq> SEARCH_URL then (Inr 20, w)
         else if loc = (XPATH, ''//a[contains(@class, 'm2-pagination__next')]'') then (Inr 40, w)
         else (Inl NoSuchElementException, w)),
       drv_find_elements := (\<lambda>loc w.
         if loc = by_testid \<and> w = SEARCH_URL then (Inr [1], w) else (Inr [], w)),
       drv_execute_script := (\<lambda>script args w.
         if script = ''arguments[0].click();'' then (Inr (), SEARCH_URL) else (Inr (), w)),
       drv_until := (\<lambda>t c w.
         if c = element_to_be_clickable (XPATH, ''//button[contains(., 'Aceptar todo')]'')
         then (Inl TimeoutException, w) else (Inr 30, w)) \<rparr>"

definition loop_start :: "string state" where
  "loop_start = \<lparr> world = SEARCH_URL, trace = [], properties = [], page = 1 \<rparr>"

lemmas site_defs = demo_site_def blank_browser_def start_def demo_payload_def
  broken_payload_site_def flaky_site_def endless_site_def loop_start_def demo_record_def
  default_record_def

lemmas run_defs = bnd_def ret_def lift_def try_except_def try_finally_def any_exception_def
  invoke_def strftime_def driver_get_def wait_until_def find_element_def find_elements_def
  find_element_in_def get_attribute_def click_def execute_script_def save_screenshot_def
  page_source_def write_file_def write_csv_def quit_def take_screenshot_def
  get_page_def set_page_def get_properties_def set_properties_def append_property_def

lemmas stage_defs = process_page_def scroll_page_def discover_cards_def no_cards_def
  by_testid_def by_class_def by_generic_card_def unique_links_def card_link_def list_set_def
  accepted_href_def next_page_def locate_next_def click_and_wait_def click_next_def
  elem_truthy_def
  scrape_property_page_def wait_for_page_def read_listing_def loads_def listing_of_def
  compile_property_def compile_fields_def

section \<open>Discovery of cards and links\<close>

text \<open>A card method found nothing when it returned no element or raised
  \<^verbatim>\<open>NoSuchElementException\<close>, which leaves \<^verbatim>\<open>cards\<close> empty.\<close>

definition found_nothing :: "exn + elem list \<Rightarrow> bool" where
  "found_nothing r = (r = Inr [] \<or> r = Inl NoSuchElementException)"

text \<open>
  Claim C3. Let \<open>r1\<close>, \<open>r2\<close>, \<open>r3\<close> be what the three selectors answer when asked one
  after the other. The requests are sent in the order testid, class, generic card; the
  first answer that is a non-empty list is the result and no later selector is asked;
  the result is the empty list exactly when all three were asked and found nothing.
\<close>

theorem card_methods_in_order:
  assumes "drv_find_elements D by_testid (world s) = (r1, w1)"
    and "drv_find_elements D by_class w1 = (r2, w2)"
    and "drv_find_elements D by_generic_card w2 = (r3, w3)"
  shows "(\<forall>cards. r1 = Inr cards \<and> cards \<noteq> [] \<longrightarrow>
            discover_cards D s =
              (Inr cards, s\<lparr>world := w1, trace := trace s @ [FindElements by_testid]\<rparr>))
       \<and> (\<forall>cards. found_nothing r1 \<and> r2 = Inr cards \<and> cards \<noteq> [] \<longrightarrow>
            discover_cards D s =
              (Inr cards, s\<lparr>world := w2, trace := trace s @
                 [FindElements by_testid, FindElements by_class]\<rparr>))
       \<and> (\<forall>cards. found_nothing r1 \<and> found_nothing r2 \<and> r3 = Inr cards \<and> cards \<noteq> [] \<longrightarrow>
            discover_cards D s =
              (Inr cards, s\<lparr>world := w3, trace := trace s @
                 [FindElements by_testid, FindElements by_class,
                  FindElements by_generic_card]\<rparr>))
       \<and> (found_nothing r1 \<and> found_nothing r2 \<and> found_nothing r3 \<longrightarrow>
            discover_cards D s =
              (Inr [], s\<lparr>world := w3, trace := trace s @
                 [FindElements by_testid, FindElements by_class,
                  FindElements by_generic_card]\<rparr>))
       \<and> (\<forall>s'. discover_cards D s = (Inr [], s') \<longrightarrow>
            found_nothing r1 \<and> found_nothing r2 \<and> found_nothing r3)"
proof -
  have 1: "find_elements D by_testid s
             = (r1, s\<lparr>world := w1, trace := trace s @ [FindElements by_testid]\<rparr>)"
    by (simp add: find_elements_def invoke_def assms(1))
  have 2: "find_elements D by_class
             (s\<lparr>world := w1, trace := trace s @ [FindElements by_testid]\<rparr>)
             = (r2, s\<lparr>world := w2, trace := trace s @
                 [FindElements by_testid, FindElements by_class]\<rparr>)"
    by (simp add: find_elements_def invoke_def assms(2))
  have 3: "find_elements D by_generic_card
             (s\<lparr>world := w2, trace := trace s @
                 [FindElements by_testid, FindElements by_class]\<rparr>)
             = (r3, s\<lparr>world := w3, trace := trace s @
                 [FindElements by_testid, FindElements by_class,
                  FindElements by_generic_card]\<rparr>)"
    by (simp add: find_elements_def invoke_def assms(3))
  show ?thesis
    unfolding discover_cards_def found_nothing_def
    by (cases r1; cases r2; cases r3)
       (auto simp: bnd_def try_except_def ret_def 1 2 3)
qed

theorem card_methods_in_order_witness:
  "drv_find_elements demo_site by_testid SEARCH_URL = (Inr [], SEARCH_URL)
   \<and> drv_find_elements demo_site by_class SEARCH_URL = (Inr [1, 2, 3, 4], SEARCH_URL)
   \<and> discover_cards demo_site (start\<lparr>world := SEARCH_URL\<rparr>)
     = (Inr [1, 2, 3, 4],
        start\<lparr>world := SEARCH_URL, trace := [FindElements by_testid, FindElements by_class]\<rparr>)"
  using card_methods_in_order[of demo_site "start\<lparr>world := SEARCH_URL\<rparr>"
      "Inr []" SEARCH_URL "Inr [1, 2, 3, 4]" SEARCH_URL "Inr []" SEARCH_URL]
  by (simp add: demo_site_def blank_browser_def start_def by_testid_def by_class_def
      by_generic_card_def found_nothing_def)

text \<open>\<open>str_in\<close> is containment of a substring.\<close>

lemma str_in_iff: "str_in sub s \<longleftrightarrow> (\<exists>p q. s = p @ sub @ q)"
proof (induction s)
  case Nil
  then show ?case by auto
next
  case (Cons c cs)
  show ?case
  proof
    assume "str_in sub (c # cs)"
    then consider "take (length sub) (c # cs) = sub" | "str_in sub cs" by auto
    then show "\<exists>p q. c # cs = p @ sub @ q"
    proof cases
      case 1
      then have "c # cs = [] @ sub @ drop (length sub) (c # cs)"
        by (metis append_Nil append_take_drop_id)
      then show ?thesis by blast
    next
      case 2
      with Cons.IH obtain p q where "cs = p @ sub @ q" by blast
      then have "c # cs = (c # p) @ sub @ q" by simp
      then show ?thesis by blast
    qed
  next
    assume "\<exists>p q. c # cs = p @ sub @ q"
    then obtain p q where pq: "c # cs = p @ sub @ q" by blast
    show "str_in sub (c # cs)"
    proof (cases p)
      case Nil
      with pq have "take (length sub) (c # cs) = sub" by simp
      then show ?thesis by simp
    next
      case (Cons a p')
      with pq have "cs = p' @ sub @ q" by simp
      with Cons.IH show ?thesis by auto
    qed
  qed
qed

definition accepted_url :: "string \<Rightarrow> bool" where
  "accepted_url u = (str_in ''/inmueble/'' u \<or> str_in ''/proyecto/'' u)"

lemma card_link_accepted:
  assumes "card_link D c links s = (r, s')" and "\<forall>u \<in> set links. accepted_url u"
  shows "\<exists>links'. r = Inr links' \<and> (\<forall>u \<in> set links'. accepted_url u)"
  using assms
  by (auto simp: card_link_def try_except_def bnd_def ret_def any_exception_def accepted_href_def
      accepted_url_def split: prod.splits sum.splits if_splits option.splits)

lemma card_links_accepted:
  assumes "card_links D cards links s = (r, s')" and "\<forall>u \<in> set links. accepted_url u"
  shows "\<exists>links'. r = Inr links' \<and> (\<forall>u \<in> set links'. accepted_url u)"
  using assms
proof (induction cards arbitrary: links s)
  case Nil
  then show ?case by (auto simp: ret_def)
next
  case (Cons c cards)
  obtain r1 s1 where 1: "card_link D c links s = (r1, s1)" by (cases "card_link D c links s")
  from card_link_accepted[OF 1 Cons.prems(2)] obtain links1
    where r1: "r1 = Inr links1" and acc: "\<forall>u \<in> set links1. accepted_url u" by blast
  from Cons.prems(1) 1 r1 have "card_links D cards links1 s1 = (r, s')"
    by (simp add: bnd_def)
  from Cons.IH[OF this acc] show ?case .
qed


lemma demo_unique_links:
  "fst (unique_links demo_site [1, 2, 3, 4] (start\<lparr>world := SEARCH_URL\<rparr>))
     = Inr [''https://m2.co/inmueble/1'', ''https://m2.co/proyecto/2'']"
  by (simp add: stage_defs run_defs demo_site_def blank_browser_def start_def)

text \<open>
  Claim C4. Whatever the cards are and whatever the browser answers, the list of links
  that line 225 leaves for the extraction has no URL twice, and every URL in it contains
  \<^verbatim>\<open>/inmueble/\<close> or \<^verbatim>\<open>/proyecto/\<close>.
\<close>

theorem links_unique_and_accepted:
  "\<exists>links s'. unique_links D cards s = (Inr links, s') \<and> distinct links
      \<and> (\<forall>u \<in> set links. str_in ''/inmueble/'' u \<or> str_in ''/proyecto/'' u)"
proof -
  obtain r1 s1 where 1: "card_links D cards [] s = (r1, s1)" by (cases "card_links D cards [] s")
  from card_links_accepted[OF 1] obtain found
    where r1: "r1 = Inr found" and acc: "\<forall>u \<in> set found. accepted_url u" by auto
  from 1 r1 have "unique_links D cards s = (Inr (list_set D found), s1)"
    by (simp add: unique_links_def bnd_def ret_def)
  then show ?thesis
    using acc by (simp add: list_set_def accepted_url_def)
qed

theorem links_unique_and_accepted_witness:
  "fst (unique_links demo_site [1, 2, 3, 4] (start\<lparr>world := SEARCH_URL\<rparr>))
     = Inr [''https://m2.co/inmueble/1'', ''https://m2.co/proyecto/2'']
   \<and> distinct [''https://m2.co/inmueble/1'', ''https://m2.co/proyecto/2'']
   \<and> str_in ''/inmueble/'' ''https://m2.co/inmueble/1''
   \<and> str_in ''/proyecto/'' ''https://m2.co/proyecto/2''"
  using links_unique_and_accepted[of demo_site "[1, 2, 3, 4]" "start\<lparr>world := SEARCH_URL\<rparr>"]
    demo_unique_links
  by auto


section \<open>Extraction of one property\<close>

text \<open>
  \<^verbatim>\<open>take_screenshot\<close> is called from the handlers without a \<^verbatim>\<open>try\<close> of its own. What a
  handler returns is stated for collaborators whose \<^verbatim>\<open>save_screenshot\<close> returns,
  \<open>snapshot_returns\<close>; the request itself is sent in any case.
\<close>

definition snapshot_returns :: "'w driver \<Rightarrow> bool" where
  "snapshot_returns D = (\<forall>f w. \<exists>saved w'. drv_save_screenshot D f w = (Inr saved, w'))"

lemma take_screenshot_trace:
  assumes "take_screenshot D name s = (r, s')"
  shows "\<exists>f. trace s' = trace s @ [SaveScreenshot f]"
  using assms
  by (auto simp: take_screenshot_def save_screenshot_def strftime_def invoke_def bnd_def ret_def
      split: prod.splits sum.splits)

lemma take_screenshot_returns:
  assumes "snapshot_returns D"
  shows "\<exists>f s'. take_screenshot D name s = (Inr f, s')"
proof -
  obtain t w1 where t: "time_strftime D ''%Y%m%d-%H%M%S'' (world s) = (t, w1)"
    by (cases "time_strftime D ''%Y%m%d-%H%M%S'' (world s)")
  from assms obtain saved w2
    where "drv_save_screenshot D (DEBUG_DIR @ ''/'' @ name @ ''_'' @ t @ ''.png'') w1 = (Inr saved, w2)"
    unfolding snapshot_returns_def by blast
  with t show ?thesis
    by (simp add: take_screenshot_def save_screenshot_def strftime_def invoke_def bnd_def ret_def)
qed

lemma snapshot_then:
  "\<exists>r s' f. bnd (take_screenshot D name) (\<lambda>f. ret v) s = (r, s')
      \<and> trace s' = trace s @ [SaveScreenshot f]
      \<and> (\<forall>x. r = Inr x \<longrightarrow> x = v)
      \<and> (snapshot_returns D \<longrightarrow> r = Inr v)
      \<and> properties s' = properties s \<and> page s' = page s"
proof -
  obtain r1 s1 where 1: "take_screenshot D name s = (r1, s1)" by (cases "take_screenshot D name s")
  from take_screenshot_trace[OF 1] obtain f where f: "trace s1 = trace s @ [SaveScreenshot f]" ..
  have fr: "properties s1 = properties s" "page s1 = page s"
    using keepsD[OF keeps_properties_take_screenshot 1] keepsD[OF keeps_page_take_screenshot 1]
    by simp_all
  show ?thesis
  proof (cases r1)
    case (Inl e)
    have "\<not> snapshot_returns D"
    proof
      assume "snapshot_returns D"
      from take_screenshot_returns[OF this, of name s] 1 Inl show False by auto
    qed
    with 1 Inl f fr show ?thesis by (auto simp: bnd_def)
  next
    case (Inr x)
    with 1 f fr show ?thesis by (auto simp: bnd_def ret_def)
  qed
qed


lemma errors_after_navigation_are_contained:
  assumes "driver_get D u s = (Inr (), s1)" and "snapshot_returns D"
  shows "\<exists>r s'. scrape_property_page D u s = (Inr r, s')"
proof -
  let ?handler = "\<lambda>e. bnd (take_screenshot D ''property_error'') (\<lambda>f. ret None)"
  let ?body = "bnd (wait_for_page D) (\<lambda>ready. bnd (read_listing D) (\<lambda>listing. compile_property D u listing))"
  have run: "scrape_property_page D u s = try_except ?body any_exception ?handler s1"
    using assms(1) by (simp add: scrape_property_page_def bnd_def)
  obtain rb sb where body: "?body s1 = (rb, sb)" by (cases "?body s1")
  show ?thesis
  proof (cases rb)
    case (Inr x)
    with run body show ?thesis by (simp add: try_except_def)
  next
    case (Inl e)
    with run body have "scrape_property_page D u s = ?handler e sb"
      by (simp add: try_except_def any_exception_def)
    with snapshot_then[of D "''property_error''" "None :: property_data option" sb] assms(2)
    show ?thesis by auto
  qed
qed



lemma page_loop_stop:
  assumes "page s \<le> MAX_PAGES" and "fst (process_page D s) \<noteq> Inr Continue"
  shows "page_loop D s =
           (1, (case fst (process_page D s) of Inl e \<Rightarrow> Inl e | Inr f \<Rightarrow> Inr ()),
            snd (process_page D s))"
proof (cases "process_page D s")
  case (Pair r s')
  with assms show ?thesis
    by (subst page_loop.simps) (auto split: sum.splits flow.splits)
qed

lemma page_loop_continue:
  assumes "page s \<le> MAX_PAGES" and "fst (process_page D s) = Inr Continue"
  shows "page_loop D s =
           (Suc (fst (page_loop D (snd (process_page D s)))),
            snd (page_loop D (snd (process_page D s))))"
proof (cases "process_page D s")
  case (Pair r s')
  with assms show ?thesis
    by (subst page_loop.simps) (auto split: prod.splits)
qed

lemma flaky_links:
  "fst (unique_links flaky_site [1, 2, 3, 4] (start\<lparr>world := SEARCH_URL\<rparr>))
     = Inr [''https://m2.co/inmueble/1'', ''https://m2.co/proyecto/2'']"
  by (simp add: stage_defs run_defs site_defs)

lemma flaky_page:
  "fst (scrape_property_page flaky_site ''https://m2.co/inmueble/1'' start) = Inl WebDriverException"
  by (simp add: stage_defs run_defs site_defs)

lemma flaky_run:
  "fst (scrape_search_results flaky_site start) = Inr []
   \<and> Get ''https://m2.co/proyecto/2'' \<notin> set (trace (snd (scrape_search_results flaky_site start)))"
  by (simp add: scrape_search_results_def accept_cookies_def while_pages_def page_loop_stop
      stage_defs py_defs run_defs site_defs SEARCH_URL_def MAX_PAGES_def DEBUG_DIR_def)

lemma demo_crawl:
  "fst (scrape_search_results demo_site s)
     = Inr [demo_record ''https://m2.co/inmueble/1'', demo_record ''https://m2.co/proyecto/2'']"
  by (simp add: scrape_search_results_def accept_cookies_def while_pages_def page_loop_stop
      stage_defs py_defs run_defs site_defs SEARCH_URL_def MAX_PAGES_def DEBUG_DIR_def)

lemma blank_crawl: "fst (scrape_search_results blank_browser s) = Inr []"
  by (simp add: scrape_search_results_def accept_cookies_def while_pages_def page_loop_stop
      stage_defs py_defs run_defs site_defs SEARCH_URL_def MAX_PAGES_def DEBUG_DIR_def)

text \<open>
  Claim C1, on \<open>flaky_site\<close>. The search page gives the two links; opening the first
  raises \<^verbatim>\<open>WebDriverException\<close>. \<^verbatim>\<open>driver.get(url)\<close> on line 68 stands before the
  \<^verbatim>\<open>try\<close> of line 70, so the exception leaves \<^verbatim>\<open>scrape_property_page\<close>; the handler of
  line 276 ends the loop. The second link is never opened and the crawl returns no
  record, where the same site without the failure returns two.
\<close>

theorem navigation_error_stops_the_crawl:
  "fst (unique_links flaky_site [1, 2, 3, 4] (start\<lparr>world := SEARCH_URL\<rparr>))
     = Inr [''https://m2.co/inmueble/1'', ''https://m2.co/proyecto/2'']
   \<and> fst (scrape_property_page flaky_site ''https://m2.co/inmueble/1'' start) = Inl WebDriverException
   \<and> fst (scrape_search_results flaky_site start) = Inr []
   \<and> Get ''https://m2.co/proyecto/2'' \<notin> set (trace (snd (scrape_search_results flaky_site start)))
   \<and> fst (scrape_search_results demo_site start)
     = Inr [demo_record ''https://m2.co/inmueble/1'', demo_record ''https://m2.co/proyecto/2'']"
  using flaky_links flaky_page flaky_run demo_crawl[of start] by simp

section \<open>Pagination\<close>

text \<open>Three ways in which a page ends the walk: the selectors find no card, the cards give
  no accepted link, or the links were scraped and no locator finds the next-page
  control.\<close>

definition found_no_cards :: "'w driver \<Rightarrow> 'w state \<Rightarrow> bool" where
  "found_no_cards D s =
     (case scroll_page D s of
        (Inr scrolled, s1) \<Rightarrow> fst (discover_cards D s1) = Inr []
      | (Inl e, s1) \<Rightarrow> False)"

definition found_no_links :: "'w driver \<Rightarrow> 'w state \<Rightarrow> bool" where
  "found_no_links D s =
     (case scroll_page D s of
        (Inr scrolled, s1) \<Rightarrow>
          (case discover_cards D s1 of
             (Inr cards, s2) \<Rightarrow> cards \<noteq> [] \<and> fst (unique_links D cards s2) = Inr []
           | (Inl e, s2) \<Rightarrow> False)
      | (Inl e, s1) \<Rightarrow> False)"

definition found_no_next :: "'w driver \<Rightarrow> 'w state \<Rightarrow> bool" where
  "found_no_next D s =
     (case scroll_page D s of
        (Inr scrolled, s1) \<Rightarrow>
          (case discover_cards D s1 of
             (Inr cards, s2) \<Rightarrow> cards \<noteq> [] \<and>
               (case unique_links D cards s2 of
                  (Inr links, s3) \<Rightarrow> links \<noteq> [] \<and>
                    (case scrape_links D links s3 of
                       (Inr scraped, s4) \<Rightarrow> isl (fst (locate_next D s4))
                     | (Inl e, s4) \<Rightarrow> False)
                | (Inl e, s3) \<Rightarrow> False)
           | (Inl e, s2) \<Rightarrow> False)
      | (Inl e, s1) \<Rightarrow> False)"

lemma click_next_page:
  assumes "click_next D b s = (r, s')"
  shows "page s' = page s \<or> page s' = page s + 1"
proof -
  have k: "\<And>m r t t'. keeps page m \<Longrightarrow> m t = (r, t') \<Longrightarrow> page t' = page t"
    by (rule keepsD)
  note ks = k[OF keeps_page_click_and_wait] k[OF keeps_page_take_screenshot]
  from assms show ?thesis
    by (auto simp: click_next_def bnd_def ret_def get_page_def set_page_def
        split: prod.splits sum.splits if_splits dest!: ks)
qed

lemma next_page_page:
  assumes "next_page D s = (r, s')"
  shows "page s' = page s \<or> (page s < MAX_PAGES \<and> page s' = page s + 1)"
proof -
  have k: "\<And>m r t t'. keeps page m \<Longrightarrow> m t = (r, t') \<Longrightarrow> page t' = page t"
    by (rule keepsD)
  note ks = k[OF keeps_page_stages(5)] k[OF keeps_page_take_screenshot]
  from assms show ?thesis
    by (auto simp: next_page_def bnd_def ret_def get_page_def try_except_def
        split: prod.splits sum.splits if_splits dest!: ks click_next_page)
qed

lemma process_page_page:
  assumes "process_page D s = (r, s')"
  shows "page s' = page s \<or> (page s < MAX_PAGES \<and> page s' = page s + 1)"
proof -
  have k: "\<And>m r t t'. keeps page m \<Longrightarrow> m t = (r, t') \<Longrightarrow> page t' = page t"
    by (rule keepsD)
  note ks = k[OF keeps_page_stages(1)] k[OF keeps_page_stages(2)] k[OF keeps_page_stages(3)]
    k[OF keeps_page_unique_links] k[OF keeps_page_scrape_links] k[OF keeps_page_take_screenshot]
  from assms show ?thesis
    by (auto simp: process_page_def bnd_def ret_def get_page_def try_except_def
        split: prod.splits sum.splits if_splits dest!: ks next_page_page)
qed

lemma page_loop_bound:
  "fst (page_loop D s) \<le> nat (MAX_PAGES + 1 - page s)
   \<and> (page s \<le> MAX_PAGES \<longrightarrow> page (snd (snd (page_loop D s))) \<le> MAX_PAGES)"
proof (induction D s rule: page_loop.induct)
  case (1 D s)
  show ?case
  proof (cases "page s \<le> MAX_PAGES")
    case False
    then show ?thesis by (subst (1 2) page_loop.simps) simp
  next
    case True
    obtain r s' where run: "process_page D s = (r, s')" by (cases "process_page D s")
    show ?thesis
    proof (cases "r = Inr Continue")
      case True
      from process_page_Continue[OF run[unfolded True]]
      have lt: "page s < MAX_PAGES" and nxt: "page s' = page s + 1" by simp_all
      from "1.IH"[OF \<open>page s \<le> MAX_PAGES\<close> run[symmetric] True refl]
      have ih: "fst (page_loop D s') \<le> nat (MAX_PAGES + 1 - page s')"
        "page (snd (snd (page_loop D s'))) \<le> MAX_PAGES"
        using lt nxt by simp_all
      have "page_loop D s = (Suc (fst (page_loop D s')), snd (page_loop D s'))"
        using \<open>page s \<le> MAX_PAGES\<close> run True
        by (subst page_loop.simps) (simp split: prod.splits)
      with ih lt nxt show ?thesis by simp
    next
      case False
      with \<open>page s \<le> MAX_PAGES\<close> run
      have "page_loop D s = (1, (case r of Inl e \<Rightarrow> Inl e | Inr f \<Rightarrow> Inr ()), s')"
        using page_loop_stop[of s D] by simp
      moreover from process_page_page[OF run] \<open>page s \<le> MAX_PAGES\<close> have "page s' \<le> MAX_PAGES"
        by auto
      ultimately show ?thesis using \<open>page s \<le> MAX_PAGES\<close> by simp
    qed
  qed
qed

lemma handler_not_Continue:
  "fst (bnd get_page (\<lambda>p. bnd (take_screenshot D (name p)) (\<lambda>f. ret Break)) s) \<noteq> Inr Continue"
  by (auto simp: bnd_def ret_def get_page_def split: prod.splits sum.splits)

lemma try_not_Continue:
  assumes "\<forall>x. fst (m s) \<noteq> Inr Continue" and "\<And>e t. fst (h e t) \<noteq> Inr Continue"
  shows "fst (try_except m c h s) \<noteq> Inr Continue"
  using assms
  by (auto simp: try_except_def split: prod.splits sum.splits)

lemma next_page_no_control:
  assumes "isl (fst (locate_next D s))"
  shows "fst (next_page D s) \<noteq> Inr Continue"
  using assms
  by (auto simp: next_page_def bnd_def ret_def get_page_def try_except_def any_exception_def
      split: prod.splits sum.splits)

lemma no_cards_not_Continue: "fst (no_cards D s) \<noteq> Inr Continue"
  using no_cards_Break[of D s Continue "snd (no_cards D s)"]
  by (cases "no_cards D s") auto

lemma process_page_stops:
  assumes "found_no_cards D s \<or> found_no_links D s \<or> found_no_next D s"
  shows "fst (process_page D s) \<noteq> Inr Continue"
proof -
  let ?body = "bnd (scroll_page D) (\<lambda>scrolled.
        bnd (discover_cards D) (\<lambda>cards.
        if cards = [] then no_cards D
        else bnd (unique_links D cards) (\<lambda>links.
             if links = [] then bnd (take_screenshot D ''no_valid_links'') (\<lambda>f. ret Break)
             else bnd (scrape_links D links) (\<lambda>scraped. next_page D))))"
  from assms obtain s1 where 1: "scroll_page D s = (Inr (), s1)"
    by (auto simp: found_no_cards_def found_no_links_def found_no_next_def
        split: prod.splits sum.splits)
  obtain r2 s2 where 2: "discover_cards D s1 = (r2, s2)" by (cases "discover_cards D s1")
  from assms 1 2 obtain cards where r2: "r2 = Inr cards"
    by (auto simp: found_no_cards_def found_no_links_def found_no_next_def
        split: prod.splits sum.splits)
  have "fst (?body s) \<noteq> Inr Continue"
  proof (cases "cards = []")
    case True
    with 1 2 r2 show ?thesis by (simp add: bnd_def no_cards_not_Continue)
  next
    case False
    obtain r3 s3 where 3: "unique_links D cards s2 = (r3, s3)" by (cases "unique_links D cards s2")
    from assms 1 2 r2 3 False obtain links where r3: "r3 = Inr links"
      by (auto simp: found_no_cards_def found_no_links_def found_no_next_def
          split: prod.splits sum.splits)
    show ?thesis
    proof (cases "links = []")
      case True
      with 1 2 r2 3 r3 False show ?thesis
        by (auto simp: bnd_def ret_def split: prod.splits sum.splits)
    next
      case nonempty: False
      obtain r4 s4 where 4: "scrape_links D links s3 = (r4, s4)" by (cases "scrape_links D links s3")
      from assms 1 2 r2 3 r3 4 False nonempty
      have "r4 = Inr () \<and> isl (fst (locate_next D s4))"
        by (auto simp: found_no_cards_def found_no_links_def found_no_next_def
            split: prod.splits sum.splits)
      with 1 2 r2 3 r3 4 False nonempty show ?thesis
        by (simp add: bnd_def next_page_no_control)
    qed
  qed
  then show ?thesis
    unfolding process_page_def
    by (intro try_not_Continue) (simp_all add: handler_not_Continue)
qed

lemma endless_page:
  assumes "world s = SEARCH_URL" and "page s < MAX_PAGES"
  shows "fst (process_page endless_site s) = Inr Continue"
    and "world (snd (process_page endless_site s)) = SEARCH_URL"
    and "page (snd (process_page endless_site s)) = page s + 1"
    and "properties (snd (process_page endless_site s))
           = properties s @ [demo_record ''https://m2.co/inmueble/1'']"
  using assms
  by (simp_all add: stage_defs py_defs run_defs site_defs endless_site_def SEARCH_URL_def)

lemma endless_last_page:
  assumes "world s = SEARCH_URL" and "page s = MAX_PAGES"
  shows "fst (process_page endless_site s) = Inr Break"
    and "page (snd (process_page endless_site s)) = page s"
    and "properties (snd (process_page endless_site s))
           = properties s @ [demo_record ''https://m2.co/inmueble/1'']"
  using assms
  by (simp_all add: stage_defs py_defs run_defs site_defs endless_site_def SEARCH_URL_def)

lemma endless_visits:
  "pages_visited endless_site loop_start = 3
   \<and> page (snd (while_pages endless_site loop_start)) = 3
   \<and> fst (while_pages endless_site loop_start) = Inr ()
   \<and> properties (snd (while_pages endless_site loop_start))
       = [demo_record ''https://m2.co/inmueble/1'', demo_record ''https://m2.co/inmueble/1'',
          demo_record ''https://m2.co/inmueble/1'']"
proof -
  define s1 where "s1 = snd (process_page endless_site loop_start)"
  define s2 where "s2 = snd (process_page endless_site s1)"
  define s3 where "s3 = snd (process_page endless_site s2)"
  have p0: "world loop_start = SEARCH_URL" "page loop_start = 1" "properties loop_start = []"
    by (simp_all add: loop_start_def)
  have p1: "fst (process_page endless_site loop_start) = Inr Continue" "world s1 = SEARCH_URL"
    "page s1 = 2" "properties s1 = [demo_record ''https://m2.co/inmueble/1'']"
    using endless_page[of loop_start] p0 by (simp_all add: s1_def MAX_PAGES_def)
  have p2: "fst (process_page endless_site s1) = Inr Continue" "world s2 = SEARCH_URL"
    "page s2 = 3"
    "properties s2 = [demo_record ''https://m2.co/inmueble/1'', demo_record ''https://m2.co/inmueble/1'']"
    using endless_page[of s1] p1 by (simp_all add: s2_def MAX_PAGES_def)
  have p3: "fst (process_page endless_site s2) = Inr Break" "page s3 = 3"
    "properties s3 = [demo_record ''https://m2.co/inmueble/1'', demo_record ''https://m2.co/inmueble/1'',
       demo_record ''https://m2.co/inmueble/1'']"
    using endless_last_page[of s2] p2 by (simp_all add: s3_def MAX_PAGES_def)
  have l2: "page_loop endless_site s2 = (1, Inr (), s3)"
    using page_loop_stop[of s2 endless_site] p2 p3 by (simp add: MAX_PAGES_def s3_def)
  have l1: "page_loop endless_site s1 = (2, Inr (), s3)"
    using page_loop_continue[of s1 endless_site] p1 p2 l2 by (simp add: MAX_PAGES_def s2_def)
  have l0: "page_loop endless_site loop_start = (3, Inr (), s3)"
    using page_loop_continue[of loop_start endless_site] p0 p1 l1 by (simp add: MAX_PAGES_def s1_def)
  show ?thesis
    using l0 p3 by (simp add: pages_visited_def while_pages_def)
qed

text \<open>
  Claim C2. The loop terminates on every input (\<open>page_loop\<close> is a total function). From
  \<^verbatim>\<open>page = 1\<close> the body runs at most \<open>MAX_PAGES\<close> times and \<^verbatim>\<open>page\<close> never goes beyond
  \<open>MAX_PAGES\<close>. A page that finds no cards, or no accepted links, or no next-page control
  is the last one.
\<close>

theorem pagination_bounded:
  assumes "page s = 1"
  shows "pages_visited D s \<le> nat MAX_PAGES
       \<and> page (snd (while_pages D s)) \<le> MAX_PAGES
       \<and> (\<forall>t. page t \<le> MAX_PAGES
              \<and> (found_no_cards D t \<or> found_no_links D t \<or> found_no_next D t)
            \<longrightarrow> pages_visited D t = 1)"
proof -
  from page_loop_bound[of D s] assms
  have "pages_visited D s \<le> nat MAX_PAGES" "page (snd (while_pages D s)) \<le> MAX_PAGES"
    by (simp_all add: pages_visited_def while_pages_def MAX_PAGES_def)
  moreover have "pages_visited D t = 1"
    if "page t \<le> MAX_PAGES" "found_no_cards D t \<or> found_no_links D t \<or> found_no_next D t" for t
    using page_loop_stop[OF that(1) process_page_stops[OF that(2)]]
    by (simp add: pages_visited_def)
  ultimately show ?thesis by blast
qed

theorem pagination_bounded_witness:
  "page loop_start = 1
   \<and> pages_visited endless_site loop_start = 3
   \<and> pages_visited endless_site loop_start \<le> nat MAX_PAGES
   \<and> page (snd (while_pages endless_site loop_start)) \<le> MAX_PAGES
   \<and> found_no_cards blank_browser loop_start
   \<and> pages_visited blank_browser loop_start = 1"
proof -
  have 1: "page loop_start = 1" by (simp add: loop_start_def)
  have 2: "found_no_cards blank_browser loop_start"
    by (simp add: found_no_cards_def stage_defs run_defs site_defs)
  have 3: "page loop_start \<le> MAX_PAGES" by (simp add: loop_start_def MAX_PAGES_def)
  from pagination_bounded[OF 1, of endless_site] pagination_bounded[OF 1, of blank_browser]
    endless_visits 1 2 3
  show ?thesis by auto
qed





section \<open>The top-level run\<close>

lemma main_after_crawl:
  assumes "init_driver D s = (Inr (), s1)" and "scrape_search_results D s1 = (Inr results, s2)"
  shows "(results \<noteq> [] \<longrightarrow>
           (\<forall>w3 w4. csv_write D OUTPUT_FILE field_names results (world s2) = (Inr (), w3)
                    \<and> drv_quit D w3 = (Inr (), w4) \<longrightarrow>
              main D s = (Inr (), s2\<lparr>world := w4,
                trace := trace s2 @ [WriteCsv OUTPUT_FILE field_names results, Quit]\<rparr>)))
       \<and> (results = [] \<longrightarrow>
           (\<forall>w3. drv_quit D (world s2) = (Inr (), w3) \<longrightarrow>
              main D s = (Inr (), s2\<lparr>world := w3, trace := trace s2 @ [Quit]\<rparr>)))"
  using assms
  by (simp add: main_def save_results_def write_csv_def quit_def invoke_def bnd_def ret_def
      try_except_def try_finally_def)

lemma main_returns_unit:
  assumes "D = demo_site \<or> D = blank_browser"
  shows "fst (main D s) = Inr ()"
proof -
  obtain r2 s2 where 2: "scrape_search_results D (snd (init_driver D s)) = (r2, s2)"
    by (cases "scrape_search_results D (snd (init_driver D s))")
  from assms demo_crawl[of "snd (init_driver D s)"] blank_crawl[of "snd (init_driver D s)"] 2
  obtain results where r2: "r2 = Inr results" by auto
  have i: "init_driver D s = (Inr (), snd (init_driver D s))"
    using assms by (auto simp: init_driver_def execute_script_def invoke_def bnd_def site_defs)
  have q: "\<And>w. drv_quit D w = (Inr (), w)" "\<And>p h rows w. csv_write D p h rows w = (Inr (), w)"
    using assms by (auto simp: site_defs)
  from main_after_crawl[OF i 2[unfolded r2]] q show ?thesis
    by (cases "results = []") simp_all
qed

text \<open>
  Claim C9, as the program has it. \<^verbatim>\<open>main\<close> returns nothing. When the browser has
  started and the crawl has returned its list, a non-empty list is written once, all of
  it and under the 22 field names, to the CSV file, and the browser is closed; for an
  empty list the browser is closed and nothing is written. No count of pages, links or
  failures is kept anywhere.
\<close>

theorem main_writes_the_records:
  assumes "init_driver D s = (Inr (), s1)" and "scrape_search_results D s1 = (Inr results, s2)"
  shows "(results \<noteq> [] \<longrightarrow>
           (\<forall>w3 w4. csv_write D OUTPUT_FILE field_names results (world s2) = (Inr (), w3)
                    \<and> drv_quit D w3 = (Inr (), w4) \<longrightarrow>
              main D s = (Inr (), s2\<lparr>world := w4,
                trace := trace s2 @ [WriteCsv OUTPUT_FILE field_names results, Quit]\<rparr>)))
       \<and> (results = [] \<longrightarrow>
           (\<forall>w3. drv_quit D (world s2) = (Inr (), w3) \<longrightarrow>
              main D s = (Inr (), s2\<lparr>world := w3, trace := trace s2 @ [Quit]\<rparr>)))"
  using main_after_crawl[OF assms] .

theorem main_writes_the_records_witness:
  "fst (init_driver demo_site start) = Inr ()
   \<and> fst (scrape_search_results demo_site (snd (init_driver demo_site start)))
       = Inr [demo_record ''https://m2.co/inmueble/1'', demo_record ''https://m2.co/proyecto/2'']
   \<and> main demo_site start
       = (Inr (),
          (snd (scrape_search_results demo_site (snd (init_driver demo_site start))))
          \<lparr>world := world (snd (scrape_search_results demo_site (snd (init_driver demo_site start)))),
           trace := trace (snd (scrape_search_results demo_site (snd (init_driver demo_site start))))
             @ [WriteCsv OUTPUT_FILE field_names
                  [demo_record ''https://m2.co/inmueble/1'', demo_record ''https://m2.co/proyecto/2''],
                Quit]\<rparr>)"
proof -
  have fi: "fst (init_driver demo_site start) = Inr ()"
    by (auto simp: init_driver_def execute_script_def invoke_def bnd_def site_defs)
  then have i: "init_driver demo_site start = (Inr (), snd (init_driver demo_site start))"
    by (metis prod.collapse)
  note fc = demo_crawl[of "snd (init_driver demo_site start)"]
  then have c: "scrape_search_results demo_site (snd (init_driver demo_site start))
      = (Inr [demo_record ''https://m2.co/inmueble/1'', demo_record ''https://m2.co/proyecto/2''],
         snd (scrape_search_results demo_site (snd (init_driver demo_site start))))"
    by (metis prod.collapse)
  have q: "\<And>w. drv_quit demo_site w = (Inr (), w)"
    "\<And>p h rows w. csv_write demo_site p h rows w = (Inr (), w)"
    by (auto simp: site_defs)
  from main_writes_the_records[OF i c] q
  have "main demo_site start
       = (Inr (),
          (snd (scrape_search_results demo_site (snd (init_driver demo_site start))))
          \<lparr>world := world (snd (scrape_search_results demo_site (snd (init_driver demo_site start)))),
           trace := trace (snd (scrape_search_results demo_site (snd (init_driver demo_site start))))
             @ [WriteCsv OUTPUT_FILE field_names
                  [demo_record ''https://m2.co/inmueble/1'', demo_record ''https://m2.co/proyecto/2''],
                Quit]\<rparr>)"
    by simp
  with fi fc show ?thesis by simp
qed

text \<open>
  Claim C9, as the specification has it, fails: the value \<^verbatim>\<open>main\<close> returns is the same
  for a run that collected two records and for a run that collected none.
\<close>

theorem returned_value_counterexample:
  "fst (main demo_site start) = fst (main blank_browser start)
   \<and> fst (scrape_search_results demo_site (snd (init_driver demo_site start)))
       = Inr [demo_record ''https://m2.co/inmueble/1'', demo_record ''https://m2.co/proyecto/2'']
   \<and> fst (scrape_search_results blank_browser (snd (init_driver blank_browser start))) = Inr []"
  by (simp add: main_returns_unit demo_crawl blank_crawl)

end
